theory Spec2Isabelle
  imports Main "HOL-Library.Word"
begin

section \<open>Basic types\<close>

text \<open>
  Go's \<open>int64\<close> and \<open>int32\<close> are machine words. A \<open>time.Time\<close> is an instant; it is
  held here as the number of nanoseconds since the Unix epoch, so that
  \<open>time.Unix(sec, nsec)\<close> is \<open>sec * 10^9 + nsec\<close> and \<open>time.Unix(0, 0)\<close> is the
  instant \<open>0\<close>.
\<close>

type_synonym int64 = "64 word"
type_synonym int32 = "32 word"
type_synonym time = int

definition time_Unix :: "int \<Rightarrow> int \<Rightarrow> time" where
  "time_Unix sec nsec = sec * 1000000000 + nsec"

text \<open>
  Modelled from the spec: \<open>definition.WorkflowKey\<close> is declared in
  \<open>common/definition\<close>, which is not among the sources; the spec gives its
  three components (namespace ID, workflow ID, run ID).
\<close>

record WorkflowKey =
  NamespaceID :: string
  WorkflowID :: string
  RunID :: string

section \<open>Categories\<close>

text \<open>
  Modelled from the spec: the category registry of package \<open>tasks\<close> is not among the
  sources. The spec describes a category as the value object \<open>{Name, Type, ID}\<close>
  with \<open>Type\<close> one of Immediate and Scheduled, and names the well-known
  categories; Transfer and Replication are Immediate, Timer is Scheduled. The
  spec gives no numeric ids: the constants below number the categories 1, 2, 3
  only to make them distinct struct values, and nothing proved below depends
  on the numbers. Go compares two \<open>Category\<close> structs field by field, which is
  equality of records.
\<close>

datatype CategoryType = CategoryTypeImmediate | CategoryTypeScheduled

record Category =
  ID :: int32
  cType :: CategoryType
  Name :: string

definition Category_Type :: "Category \<Rightarrow> CategoryType" where
  "Category_Type c = cType c"

definition CategoryTransfer :: Category where
  "CategoryTransfer = \<lparr>ID = 1, cType = CategoryTypeImmediate, Name = ''transfer''\<rparr>"

definition CategoryTimer :: Category where
  "CategoryTimer = \<lparr>ID = 2, cType = CategoryTypeScheduled, Name = ''timer''\<rparr>"

definition CategoryReplication :: Category where
  "CategoryReplication = \<lparr>ID = 3, cType = CategoryTypeImmediate, Name = ''replication''\<rparr>"

section \<open>Tasks\<close>

text \<open>The ordering key of a task, \<open>tasks.Key\<close>, as \<open>GetKey\<close> builds it.\<close>

record Key =
  FireTime :: time
  TaskID :: int64

text \<open>
  Modelled from the spec: \<open>tasks.SyncActivityTask\<close> is built by
  \<open>convertSyncActivityInfos\<close> but declared in a file that is not among the
  sources. The struct has the fields that the composite literal sets
  (\<open>WorkflowKey\<close>, \<open>Version\<close>, \<open>ScheduledID\<close>, \<open>VisibilityTimestamp\<close>) and the
  \<open>TaskID\<close> that every task carries. Its setters follow the contract of the
  spec for every task variant: each one writes its own field and nothing else.
\<close>

record SyncActivityTask =
  WorkflowKey :: WorkflowKey
  VisibilityTimestamp :: time
  TaskID :: int64
  Version :: int64
  ScheduledID :: int64

definition SyncActivityTask_GetVersion :: "SyncActivityTask \<Rightarrow> int64" where
  "SyncActivityTask_GetVersion a = SyncActivityTask.Version a"

definition SyncActivityTask_SetVersion :: "SyncActivityTask \<Rightarrow> int64 \<Rightarrow> SyncActivityTask" where
  "SyncActivityTask_SetVersion a version = a\<lparr>SyncActivityTask.Version := version\<rparr>"

definition SyncActivityTask_GetVisibilityTime :: "SyncActivityTask \<Rightarrow> time" where
  "SyncActivityTask_GetVisibilityTime a = SyncActivityTask.VisibilityTimestamp a"

definition SyncActivityTask_SetVisibilityTime :: "SyncActivityTask \<Rightarrow> time \<Rightarrow> SyncActivityTask" where
  "SyncActivityTask_SetVisibilityTime a timestamp =
     a\<lparr>SyncActivityTask.VisibilityTimestamp := timestamp\<rparr>"

text \<open>
  \<open>StartChildExecutionTask\<close> and its methods, from \<open>child_workflow_task.go\<close>. The
  methods have a pointer receiver: a setter assigns one field of the struct the
  receiver points to, which the model returns as the updated struct.
\<close>

record StartChildExecutionTask =
  WorkflowKey :: WorkflowKey
  VisibilityTimestamp :: time
  TaskID :: int64
  TargetNamespaceID :: string
  TargetWorkflowID :: string
  InitiatedID :: int64
  Version :: int64

definition GetKey :: "StartChildExecutionTask \<Rightarrow> Key" where
  "GetKey u = \<lparr>FireTime = time_Unix 0 0, TaskID = StartChildExecutionTask.TaskID u\<rparr>"

definition GetVersion :: "StartChildExecutionTask \<Rightarrow> int64" where
  "GetVersion u = StartChildExecutionTask.Version u"

definition SetVersion :: "StartChildExecutionTask \<Rightarrow> int64 \<Rightarrow> StartChildExecutionTask" where
  "SetVersion u version = u\<lparr>StartChildExecutionTask.Version := version\<rparr>"

definition GetTaskID :: "StartChildExecutionTask \<Rightarrow> int64" where
  "GetTaskID u = StartChildExecutionTask.TaskID u"

definition SetTaskID :: "StartChildExecutionTask \<Rightarrow> int64 \<Rightarrow> StartChildExecutionTask" where
  "SetTaskID u id' = u\<lparr>StartChildExecutionTask.TaskID := id'\<rparr>"

definition GetVisibilityTime :: "StartChildExecutionTask \<Rightarrow> time" where
  "GetVisibilityTime u = StartChildExecutionTask.VisibilityTimestamp u"

definition SetVisibilityTime :: "StartChildExecutionTask \<Rightarrow> time \<Rightarrow> StartChildExecutionTask" where
  "SetVisibilityTime u timestamp = u\<lparr>StartChildExecutionTask.VisibilityTimestamp := timestamp\<rparr>"

definition GetCategory :: "StartChildExecutionTask \<Rightarrow> Category" where
  "GetCategory u = CategoryTransfer"

text \<open>
  The rule for keys in the spec's words: \<open>GetKey()\<close> for Immediate categories
  returns \<open>(epoch-zero, TaskID)\<close>; for Scheduled categories it returns
  \<open>(VisibilityTimestamp, TaskID)\<close>. It is compared below with the \<open>GetKey\<close> of the
  source.
\<close>

definition spec_GetKey :: "CategoryType \<Rightarrow> time \<Rightarrow> int64 \<Rightarrow> Key" where
  "spec_GetKey type visibilityTimestamp taskID =
     (case type of
        CategoryTypeImmediate \<Rightarrow> \<lparr>FireTime = 0, TaskID = taskID\<rparr>
      | CategoryTypeScheduled \<Rightarrow> \<lparr>FireTime = visibilityTimestamp, TaskID = taskID\<rparr>)"

text \<open>
  A method call on a \<open>*StartChildExecutionTask\<close>, with the state written out: the
  call returns its result together with the struct as the call leaves it. A
  getter hands the struct back as it found it, since its body assigns nothing.
\<close>

datatype TaskCall =
    CallGetKey
  | CallGetVersion
  | CallSetVersion int64
  | CallGetTaskID
  | CallSetTaskID int64
  | CallGetVisibilityTime
  | CallSetVisibilityTime time
  | CallGetCategory

datatype TaskResult =
    ResultKey Key
  | ResultInt64 int64
  | ResultTime time
  | ResultCategory Category
  | ResultNone

fun call :: "TaskCall \<Rightarrow> StartChildExecutionTask \<Rightarrow> TaskResult \<times> StartChildExecutionTask" where
  "call CallGetKey u = (ResultKey (GetKey u), u)"
| "call CallGetVersion u = (ResultInt64 (GetVersion u), u)"
| "call (CallSetVersion version) u = (ResultNone, SetVersion u version)"
| "call CallGetTaskID u = (ResultInt64 (GetTaskID u), u)"
| "call (CallSetTaskID id') u = (ResultNone, SetTaskID u id')"
| "call CallGetVisibilityTime u = (ResultTime (GetVisibilityTime u), u)"
| "call (CallSetVisibilityTime timestamp) u = (ResultNone, SetVisibilityTime u timestamp)"
| "call CallGetCategory u = (ResultCategory (GetCategory u), u)"

text \<open>
  The interface \<open>tasks.Task\<close> as a closed sum over the task structs at hand, with
  the interface methods that \<open>setTaskInfo\<close> calls dispatched on the variant.
\<close>

datatype Task =
    StartChildExecution StartChildExecutionTask
  | SyncActivity SyncActivityTask

fun Task_GetVersion :: "Task \<Rightarrow> int64" where
  "Task_GetVersion (StartChildExecution u) = GetVersion u"
| "Task_GetVersion (SyncActivity a) = SyncActivityTask_GetVersion a"

fun Task_SetVersion :: "Task \<Rightarrow> int64 \<Rightarrow> Task" where
  "Task_SetVersion (StartChildExecution u) version = StartChildExecution (SetVersion u version)"
| "Task_SetVersion (SyncActivity a) version = SyncActivity (SyncActivityTask_SetVersion a version)"

fun Task_GetVisibilityTime :: "Task \<Rightarrow> time" where
  "Task_GetVisibilityTime (StartChildExecution u) = GetVisibilityTime u"
| "Task_GetVisibilityTime (SyncActivity a) = SyncActivityTask_GetVisibilityTime a"

fun Task_SetVisibilityTime :: "Task \<Rightarrow> time \<Rightarrow> Task" where
  "Task_SetVisibilityTime (StartChildExecution u) timestamp =
     StartChildExecution (SetVisibilityTime u timestamp)"
| "Task_SetVisibilityTime (SyncActivity a) timestamp =
     SyncActivity (SyncActivityTask_SetVisibilityTime a timestamp)"

section \<open>The task generator\<close>

text \<open>
  Modelled from the spec: \<open>persistencespb.ActivityInfo\<close> is a generated protobuf
  message that is not among the sources. \<open>convertSyncActivityInfos\<close> reads two of
  its fields, \<open>Version\<close> and \<open>ScheduleId\<close>, which are the two the spec names; the
  record holds those.
\<close>

record ActivityInfo =
  Version :: int64
  ScheduleId :: int64

text \<open>
  \<open>convertSyncActivityInfos\<close>. The argument \<open>inputs\<close> is a Go set
  (\<open>map[int64]struct{}\<close>); the \<open>range\<close> loop visits each of its keys once, in an
  order that Go leaves open. The model takes the keys in the order of the visit,
  so a statement for every list without repetition is a statement for every
  order. The snapshot \<open>activityInfos\<close> is only looked up; it maps an ID to the
  message its pointer refers to. \<open>outputs\<close> starts empty (length 0, capacity
  \<open>len(inputs)\<close>) and grows by \<open>append\<close>. A field that the composite literal leaves
  out has Go's zero value.
\<close>

fun convertSyncActivityInfos_range ::
  "time \<Rightarrow> WorkflowKey \<Rightarrow> (int64 \<rightharpoonup> ActivityInfo) \<Rightarrow> int64 list \<Rightarrow> Task list \<Rightarrow> Task list"
where
  "convertSyncActivityInfos_range now workflowKey activityInfos [] outputs = outputs"
| "convertSyncActivityInfos_range now workflowKey activityInfos (item # rest) outputs =
     (case activityInfos item of
        Some activityInfo \<Rightarrow>
          convertSyncActivityInfos_range now workflowKey activityInfos rest
            (outputs @ [SyncActivity
               \<lparr>SyncActivityTask.WorkflowKey = workflowKey,
                SyncActivityTask.VisibilityTimestamp = now,
                SyncActivityTask.TaskID = 0,
                SyncActivityTask.Version = ActivityInfo.Version activityInfo,
                ScheduledID = ScheduleId activityInfo\<rparr>])
      | None \<Rightarrow> convertSyncActivityInfos_range now workflowKey activityInfos rest outputs)"

definition convertSyncActivityInfos ::
  "time \<Rightarrow> WorkflowKey \<Rightarrow> (int64 \<rightharpoonup> ActivityInfo) \<Rightarrow> int64 list \<Rightarrow> Task list"
where
  "convertSyncActivityInfos now workflowKey activityInfos inputs =
     convertSyncActivityInfos_range now workflowKey activityInfos inputs []"

text \<open>
  \<open>setTaskInfo\<close>. The Go map \<open>insertTasks\<close> is an association list: its entries
  in the order in which the \<open>range\<close> loop visits them, whatever that order is.
  The function updates the tasks in place through their pointers; the model
  returns the map with the updated tasks, each task being referenced from one
  slot of the map. \<open>stampTasks\<close> is the inner loop over the tasks of one category.
\<close>

fun stampTasks :: "int64 \<Rightarrow> time \<Rightarrow> Category \<Rightarrow> Task list \<Rightarrow> Task list" where
  "stampTasks version timestamp category [] = []"
| "stampTasks version timestamp category (task # rest) =
     (let task' = Task_SetVersion task version;
          task'' = (if Category_Type category = CategoryTypeImmediate
                    then Task_SetVisibilityTime task' timestamp else task')
      in task'' # stampTasks version timestamp category rest)"

fun setTaskInfo ::
  "int64 \<Rightarrow> time \<Rightarrow> (Category \<times> Task list) list \<Rightarrow> (Category \<times> Task list) list"
where
  "setTaskInfo version timestamp [] = []"
| "setTaskInfo version timestamp ((category, tasksByCategory) # rest) =
     (if category = CategoryReplication
      then (category, tasksByCategory) # setTaskInfo version timestamp rest
      else (category, stampTasks version timestamp category tasksByCategory)
             # setTaskInfo version timestamp rest)"

section \<open>The replication status of a shard\<close>

text \<open>
  The messages of \<open>request_response.proto\<close>. A field of message type
  (\<open>google.protobuf.Timestamp\<close>) may be absent; a protobuf \<open>map\<close> is a finite map.
\<close>

record ShardReplicationStatusPerCluster =
  acked_task_id :: int64
  acked_task_visibility_time :: "time option"

record HandoverNamespaceInfo =
  handover_replication_task_id :: int64

record ShardReplicationStatus =
  shard_id :: int32
  max_replication_task_id :: int64
  shard_local_time :: "time option"
  remote_clusters :: "string \<rightharpoonup> ShardReplicationStatusPerCluster"
  handover_namespaces :: "string \<rightharpoonup> HandoverNamespaceInfo"

text \<open>
  The snapshot in the spec's words:
  \<open>{ShardID, MaxReplicationTaskID, ShardLocalTime,
    map[ClusterName] \<rightarrow> {AckedTaskID, AckedTaskVisibilityTime},
    map[Namespace] \<rightarrow> HandoverInfo}\<close>,
  where a \<open>HandoverInfo\<close> is the replication-task ID at which the namespace
  entered hand-over state. \<open>spec_of_status\<close> reads a message as such a
  snapshot and \<open>status_of_spec\<close> builds the message from one.
\<close>

type_synonym spec_AckedInfo = "int64 \<times> time option"
type_synonym spec_HandoverInfo = int64
type_synonym spec_ShardReplicationStatus =
  "int32 \<times> int64 \<times> time option \<times> (string \<rightharpoonup> spec_AckedInfo) \<times> (string \<rightharpoonup> spec_HandoverInfo)"

definition spec_of_perCluster :: "ShardReplicationStatusPerCluster \<Rightarrow> spec_AckedInfo" where
  "spec_of_perCluster c = (acked_task_id c, acked_task_visibility_time c)"

definition perCluster_of_spec :: "spec_AckedInfo \<Rightarrow> ShardReplicationStatusPerCluster" where
  "perCluster_of_spec a = \<lparr>acked_task_id = fst a, acked_task_visibility_time = snd a\<rparr>"

definition spec_of_handover :: "HandoverNamespaceInfo \<Rightarrow> spec_HandoverInfo" where
  "spec_of_handover h = handover_replication_task_id h"

definition handover_of_spec :: "spec_HandoverInfo \<Rightarrow> HandoverNamespaceInfo" where
  "handover_of_spec i = \<lparr>handover_replication_task_id = i\<rparr>"

definition spec_of_status :: "ShardReplicationStatus \<Rightarrow> spec_ShardReplicationStatus" where
  "spec_of_status s =
     (shard_id s, max_replication_task_id s, shard_local_time s,
      (\<lambda>cluster. map_option spec_of_perCluster (remote_clusters s cluster)),
      (\<lambda>namespace. map_option spec_of_handover (handover_namespaces s namespace)))"

definition status_of_spec :: "spec_ShardReplicationStatus \<Rightarrow> ShardReplicationStatus" where
  "status_of_spec x =
     (case x of (shardID, maxReplicationTaskID, shardLocalTime, clusters, namespaces) \<Rightarrow>
        \<lparr>shard_id = shardID,
         max_replication_task_id = maxReplicationTaskID,
         shard_local_time = shardLocalTime,
         remote_clusters = (\<lambda>cluster. map_option perCluster_of_spec (clusters cluster)),
         handover_namespaces = (\<lambda>namespace. map_option handover_of_spec (namespaces namespace))\<rparr>)"

section \<open>Example inputs\<close>

definition example_workflowKey :: WorkflowKey where
  "example_workflowKey = \<lparr>NamespaceID = ''ns'', WorkflowID = ''wf'', RunID = ''run''\<rparr>"

definition example_child :: StartChildExecutionTask where
  "example_child =
     \<lparr>StartChildExecutionTask.WorkflowKey = example_workflowKey,
      StartChildExecutionTask.VisibilityTimestamp = 11,
      StartChildExecutionTask.TaskID = 4,
      TargetNamespaceID = ''target-ns'',
      TargetWorkflowID = ''target-wf'',
      InitiatedID = 8,
      StartChildExecutionTask.Version = 2\<rparr>"

definition example_sync :: SyncActivityTask where
  "example_sync =
     \<lparr>SyncActivityTask.WorkflowKey = example_workflowKey,
      SyncActivityTask.VisibilityTimestamp = 5,
      SyncActivityTask.TaskID = 6,
      SyncActivityTask.Version = 3,
      ScheduledID = 12\<rparr>"

text \<open>
  The map of the spec's stamping example, \<open>{Transfer: [t1], Timer: [t2],
  Replication: [t3]}\<close>: \<open>t1\<close> has visibility time 11 and version 2, \<open>t2\<close> has
  visibility time 500 and version 2, \<open>t3\<close> has visibility time 5 and version 3.
\<close>

definition example_insertTasks :: "(Category \<times> Task list) list" where
  "example_insertTasks =
     [(CategoryTransfer, [StartChildExecution example_child]),
      (CategoryTimer,
         [StartChildExecution
            (example_child\<lparr>StartChildExecutionTask.VisibilityTimestamp := 500\<rparr>)]),
      (CategoryReplication, [SyncActivity example_sync])]"

text \<open>The snapshot of the spec's sync-activity example, \<open>{5: {Version: 7, ScheduleId: 5}}\<close>.\<close>

definition example_activityInfos :: "int64 \<rightharpoonup> ActivityInfo" where
  "example_activityInfos = [5 \<mapsto> \<lparr>ActivityInfo.Version = 7, ScheduleId = 5\<rparr>]"

section \<open>Setters and getters on the task sum\<close>

lemma Task_GetVersion_SetVersion: "Task_GetVersion (Task_SetVersion task version) = version"
  by (cases task)
     (simp_all add: GetVersion_def SetVersion_def
        SyncActivityTask_GetVersion_def SyncActivityTask_SetVersion_def)

lemma Task_GetVersion_SetVisibilityTime:
  "Task_GetVersion (Task_SetVisibilityTime task timestamp) = Task_GetVersion task"
  by (cases task)
     (simp_all add: GetVersion_def SetVisibilityTime_def
        SyncActivityTask_GetVersion_def SyncActivityTask_SetVisibilityTime_def)



lemma stampTasks_length: "length (stampTasks version timestamp category tasks) = length tasks"
  by (induction tasks) (simp_all add: Let_def)

lemma stampTasks_version:
  "task \<in> set (stampTasks version timestamp category tasks) \<Longrightarrow> Task_GetVersion task = version"
  by (induction tasks)
     (auto simp: Let_def Task_GetVersion_SetVersion Task_GetVersion_SetVisibilityTime
           split: if_splits)



lemma map_of_setTaskInfo:
  "map_of (setTaskInfo version timestamp insertTasks) category =
     (if category = CategoryReplication then map_of insertTasks category
      else map_option (stampTasks version timestamp category) (map_of insertTasks category))"
  by (induction insertTasks) auto

lemma setTaskInfo_keys:
  "map fst (setTaskInfo version timestamp insertTasks) = map fst insertTasks"
  by (induction insertTasks) auto


section \<open>Facts about the two loops\<close>

lemma convertSyncActivityInfos_range_eq:
  "convertSyncActivityInfos_range now workflowKey activityInfos items outputs =
     outputs @ map (\<lambda>item. SyncActivity
         \<lparr>SyncActivityTask.WorkflowKey = workflowKey,
          SyncActivityTask.VisibilityTimestamp = now,
          SyncActivityTask.TaskID = 0,
          SyncActivityTask.Version = ActivityInfo.Version (the (activityInfos item)),
          ScheduledID = ScheduleId (the (activityInfos item))\<rparr>)
       (filter (\<lambda>item. item \<in> dom activityInfos) items)"
  by (induction items arbitrary: outputs) (auto split: option.splits)

lemma convertSyncActivityInfos_eq:
  "convertSyncActivityInfos now workflowKey activityInfos inputs =
     map (\<lambda>item. SyncActivity
         \<lparr>SyncActivityTask.WorkflowKey = workflowKey,
          SyncActivityTask.VisibilityTimestamp = now,
          SyncActivityTask.TaskID = 0,
          SyncActivityTask.Version = ActivityInfo.Version (the (activityInfos item)),
          ScheduledID = ScheduleId (the (activityInfos item))\<rparr>)
       (filter (\<lambda>item. item \<in> dom activityInfos) inputs)"
  by (simp add: convertSyncActivityInfos_def convertSyncActivityInfos_range_eq)

lemma perCluster_roundtrip:
  "perCluster_of_spec (spec_of_perCluster c) = c" "spec_of_perCluster (perCluster_of_spec a) = a"
  by (simp_all add: perCluster_of_spec_def spec_of_perCluster_def)

lemma handover_roundtrip:
  "handover_of_spec (spec_of_handover h) = h" "spec_of_handover (handover_of_spec i) = i"
  by (simp_all add: handover_of_spec_def spec_of_handover_def)

section \<open>The stamping rule\<close>


text \<open>
  Claim C2. Whatever the insert-task map and the mutation version \<open>V\<close>, after
  \<open>setTaskInfo\<close> every task of every category other than Replication has version
  \<open>V\<close>; the category keeps its list, task for task.
\<close>

theorem setTaskInfo_version_stamped:
  assumes "category \<noteq> CategoryReplication"
    and "map_of insertTasks category = Some tasksByCategory"
  shows "\<exists>stamped. map_of (setTaskInfo version timestamp insertTasks) category = Some stamped
           \<and> length stamped = length tasksByCategory
           \<and> (\<forall>task \<in> set stamped. Task_GetVersion task = version)"
  using assms by (simp add: map_of_setTaskInfo stampTasks_length stampTasks_version)

text \<open>
  The spec's example map at version 42 and commit time 9: the Transfer task and
  the Timer task get version 42, the Replication task keeps version 3.
\<close>

theorem setTaskInfo_version_stamped_witness:
  "CategoryTransfer \<noteq> CategoryReplication
   \<and> map_of example_insertTasks CategoryTransfer = Some [StartChildExecution example_child]
   \<and> map_option (map Task_GetVersion)
        (map_of (setTaskInfo 42 9 example_insertTasks) CategoryTransfer) = Some [42]
   \<and> map (map Task_GetVersion \<circ> snd) example_insertTasks = [[2], [2], [3]]
   \<and> map (map Task_GetVersion \<circ> snd) (setTaskInfo 42 9 example_insertTasks) = [[42], [42], [3]]"
proof -
  have other: "CategoryTransfer \<noteq> CategoryReplication"
    by (simp add: CategoryTransfer_def CategoryReplication_def)
  have present: "map_of example_insertTasks CategoryTransfer = Some [StartChildExecution example_child]"
    by (simp add: example_insertTasks_def)
  from setTaskInfo_version_stamped [OF other present, of 42 9] other present
  show ?thesis
    by (simp add: example_insertTasks_def example_child_def example_sync_def
          CategoryTimer_def CategoryTransfer_def CategoryReplication_def Category_Type_def
          Let_def GetVersion_def SetVisibilityTime_def SetVersion_def
          SyncActivityTask_GetVersion_def)
qed






section \<open>Sync-activity generation\<close>

text \<open>
  Claim C5. For every snapshot of activity infos and every set of pending
  activity IDs, \<open>convertSyncActivityInfos\<close> emits one \<open>SyncActivity\<close> task for each
  pending ID that the snapshot holds, with that activity's \<open>Version\<close> and
  \<open>ScheduleId\<close>, and nothing for a pending ID that the snapshot lacks: the output
  is the image of the pending IDs present in the snapshot, in the order of the
  visit, and has as many tasks as there are such IDs.
\<close>

theorem convertSyncActivityInfos_one_per_present_id:
  assumes "distinct inputs"
  shows "convertSyncActivityInfos now workflowKey activityInfos inputs =
           map (\<lambda>item. SyncActivity
               \<lparr>SyncActivityTask.WorkflowKey = workflowKey,
                SyncActivityTask.VisibilityTimestamp = now,
                SyncActivityTask.TaskID = 0,
                SyncActivityTask.Version = ActivityInfo.Version (the (activityInfos item)),
                ScheduledID = ScheduleId (the (activityInfos item))\<rparr>)
             (filter (\<lambda>item. item \<in> dom activityInfos) inputs)
         \<and> distinct (filter (\<lambda>item. item \<in> dom activityInfos) inputs)
         \<and> set (filter (\<lambda>item. item \<in> dom activityInfos) inputs) = set inputs \<inter> dom activityInfos
         \<and> length (convertSyncActivityInfos now workflowKey activityInfos inputs) =
             card (set inputs \<inter> dom activityInfos)"
proof -
  let ?present = "filter (\<lambda>item. item \<in> dom activityInfos) inputs"
  have d: "distinct ?present" using assms by simp
  have s: "set ?present = set inputs \<inter> dom activityInfos" by auto
  have "length (convertSyncActivityInfos now workflowKey activityInfos inputs) = length ?present"
    by (simp add: convertSyncActivityInfos_eq)
  also have "\<dots> = card (set ?present)"
    by (rule distinct_card [OF d, symmetric])
  also have "\<dots> = card (set inputs \<inter> dom activityInfos)"
    by (simp only: s)
  finally have l: "length (convertSyncActivityInfos now workflowKey activityInfos inputs) =
      card (set inputs \<inter> dom activityInfos)" .
  from convertSyncActivityInfos_eq d s l show ?thesis by blast
qed

text \<open>
  The spec's example: the snapshot \<open>{5: {Version: 7, ScheduleId: 5}}\<close> and the
  pending IDs \<open>{5, 9}\<close> give one task, for ID 5, with version 7 and scheduled
  ID 5.
\<close>

theorem convertSyncActivityInfos_one_per_present_id_witness:
  "distinct [5, 9 :: int64]
   \<and> convertSyncActivityInfos 100 example_workflowKey example_activityInfos [5, 9] =
       [SyncActivity
          \<lparr>SyncActivityTask.WorkflowKey = example_workflowKey,
           SyncActivityTask.VisibilityTimestamp = 100,
           SyncActivityTask.TaskID = 0,
           SyncActivityTask.Version = 7,
           ScheduledID = 5\<rparr>]
   \<and> length (convertSyncActivityInfos 100 example_workflowKey example_activityInfos [5, 9]) = 1"
proof -
  have d: "distinct [5, 9 :: int64]" by simp
  from convertSyncActivityInfos_one_per_present_id [OF d, of 100 example_workflowKey example_activityInfos] d
  show ?thesis by (simp add: example_activityInfos_def)
qed

text \<open>
  Claim C10. Every task that \<open>convertSyncActivityInfos\<close> emits is a
  \<open>SyncActivity\<close> task whose visibility time is the argument \<open>now\<close> and whose
  workflow key is the argument \<open>workflowKey\<close>.
\<close>

theorem convertSyncActivityInfos_now_and_key:
  "\<forall>task \<in> set (convertSyncActivityInfos now workflowKey activityInfos inputs).
     Task_GetVisibilityTime task = now
     \<and> (\<exists>a. task = SyncActivity a
            \<and> SyncActivityTask.VisibilityTimestamp a = now
            \<and> SyncActivityTask.WorkflowKey a = workflowKey)"
  by (auto simp: convertSyncActivityInfos_eq SyncActivityTask_GetVisibilityTime_def)

text \<open>The task of the spec's example, generated at time 100, has visibility time 100.\<close>

theorem convertSyncActivityInfos_now_and_key_witness:
  "convertSyncActivityInfos 100 example_workflowKey example_activityInfos [5, 9] =
     [SyncActivity
        \<lparr>SyncActivityTask.WorkflowKey = example_workflowKey,
         SyncActivityTask.VisibilityTimestamp = 100,
         SyncActivityTask.TaskID = 0,
         SyncActivityTask.Version = 7,
         ScheduledID = 5\<rparr>]
   \<and> Task_GetVisibilityTime
        (hd (convertSyncActivityInfos 100 example_workflowKey example_activityInfos [5, 9])) = 100"
proof -
  have run: "convertSyncActivityInfos 100 example_workflowKey example_activityInfos [5, 9] =
     [SyncActivity
        \<lparr>SyncActivityTask.WorkflowKey = example_workflowKey,
         SyncActivityTask.VisibilityTimestamp = 100,
         SyncActivityTask.TaskID = 0,
         SyncActivityTask.Version = 7,
         ScheduledID = 5\<rparr>]"
    by (simp add: convertSyncActivityInfos_def example_activityInfos_def)
  from convertSyncActivityInfos_now_and_key
    [of 100 example_workflowKey example_activityInfos "[5, 9]"] run
  show ?thesis by simp
qed

section \<open>The task contract on \<open>StartChildExecutionTask\<close>\<close>

text \<open>
  Claim C6. A \<open>StartChildExecutionTask\<close> is of category Transfer, whose type is
  Immediate, and its \<open>GetKey\<close> returns the pair of epoch zero and the task's
  \<open>TaskID\<close>: the fire time is the instant 0 whatever the visibility time of the
  task, and the result is what the spec's rule for keys gives for an Immediate
  category.
\<close>

theorem StartChildExecutionTask_GetKey:
  "GetCategory u = CategoryTransfer
   \<and> Category_Type (GetCategory u) = CategoryTypeImmediate
   \<and> time_Unix 0 0 = 0
   \<and> GetKey u = \<lparr>FireTime = time_Unix 0 0, TaskID = GetTaskID u\<rparr>
   \<and> FireTime (GetKey u) = 0
   \<and> Key.TaskID (GetKey u) = StartChildExecutionTask.TaskID u
   \<and> GetKey (SetVisibilityTime u timestamp) = GetKey u
   \<and> GetKey u = spec_GetKey (Category_Type (GetCategory u)) (GetVisibilityTime u) (GetTaskID u)"
  by (simp add: GetCategory_def CategoryTransfer_def Category_Type_def GetKey_def
        GetTaskID_def SetVisibilityTime_def time_Unix_def spec_GetKey_def)

text \<open>
  Claim C7. On a \<open>StartChildExecutionTask\<close>, each of \<open>SetVersion\<close>, \<open>SetTaskID\<close> and
  \<open>SetVisibilityTime\<close> writes its own field and leaves the workflow key, the
  payload fields and the two other settable fields as they were; \<open>GetKey\<close>,
  \<open>GetCategory\<close> and the three getters leave the whole struct as it was.
\<close>

theorem StartChildExecutionTask_frame:
  "(let u' = snd (call (CallSetVersion version) u) in
      StartChildExecutionTask.Version u' = version
      \<and> StartChildExecutionTask.WorkflowKey u' = StartChildExecutionTask.WorkflowKey u
      \<and> StartChildExecutionTask.VisibilityTimestamp u' = StartChildExecutionTask.VisibilityTimestamp u
      \<and> StartChildExecutionTask.TaskID u' = StartChildExecutionTask.TaskID u
      \<and> TargetNamespaceID u' = TargetNamespaceID u
      \<and> TargetWorkflowID u' = TargetWorkflowID u
      \<and> InitiatedID u' = InitiatedID u)
   \<and> (let u' = snd (call (CallSetTaskID taskID) u) in
      StartChildExecutionTask.TaskID u' = taskID
      \<and> StartChildExecutionTask.WorkflowKey u' = StartChildExecutionTask.WorkflowKey u
      \<and> StartChildExecutionTask.VisibilityTimestamp u' = StartChildExecutionTask.VisibilityTimestamp u
      \<and> TargetNamespaceID u' = TargetNamespaceID u
      \<and> TargetWorkflowID u' = TargetWorkflowID u
      \<and> InitiatedID u' = InitiatedID u
      \<and> StartChildExecutionTask.Version u' = StartChildExecutionTask.Version u)
   \<and> (let u' = snd (call (CallSetVisibilityTime timestamp) u) in
      StartChildExecutionTask.VisibilityTimestamp u' = timestamp
      \<and> StartChildExecutionTask.WorkflowKey u' = StartChildExecutionTask.WorkflowKey u
      \<and> StartChildExecutionTask.TaskID u' = StartChildExecutionTask.TaskID u
      \<and> TargetNamespaceID u' = TargetNamespaceID u
      \<and> TargetWorkflowID u' = TargetWorkflowID u
      \<and> InitiatedID u' = InitiatedID u
      \<and> StartChildExecutionTask.Version u' = StartChildExecutionTask.Version u)
   \<and> snd (call CallGetKey u) = u
   \<and> snd (call CallGetCategory u) = u
   \<and> snd (call CallGetVersion u) = u
   \<and> snd (call CallGetTaskID u) = u
   \<and> snd (call CallGetVisibilityTime u) = u"
  by (simp add: Let_def SetVersion_def SetTaskID_def SetVisibilityTime_def)

section \<open>The shape of \<open>ShardReplicationStatus\<close>\<close>

text \<open>
  Claim C8. A \<open>ShardReplicationStatus\<close> message is the spec's snapshot and nothing
  more: a shard ID, the maximum replication task ID, the shard-local time, a map
  from cluster name to acknowledged task ID and its visibility time, and a map
  from namespace to the replication-task ID of the hand-over. Reading a message
  as a snapshot and building the message back returns the message, and the
  other way round.
\<close>

theorem ShardReplicationStatus_shape:
  "status_of_spec (spec_of_status s) = s \<and> spec_of_status (status_of_spec x) = x"
proof
  show "status_of_spec (spec_of_status s) = s"
    by (simp add: status_of_spec_def spec_of_status_def option.map_comp o_def
          perCluster_roundtrip handover_roundtrip option.map_ident)
next
  obtain a b c d e where x: "x = (a, b, c, d, e)" by (cases x)
  show "spec_of_status (status_of_spec x) = x"
    by (simp add: x status_of_spec_def spec_of_status_def option.map_comp o_def
          perCluster_roundtrip handover_roundtrip option.map_ident)
qed

end
